theory Spec2Isabelle
  imports Main "HOL-Library.Word"
begin

unbundle bit_operations_syntax

section \<open>The signature table\<close>

text \<open>
  The Go struct \<^verbatim>\<open>config\<close> has three string fields. The field \<^verbatim>\<open>mask\<close> is called
  \<open>mask_f\<close> here, since \<open>mask\<close> is a constant of the word library.
\<close>

record config =
  binary :: string
  magic :: string
  mask_f :: string

text \<open>
  The magic and mask fields are raw Go string literals: a byte written \<^verbatim>\<open>\x7f\<close> in the
  source is the four characters backslash, x, 7, f. \<open>hx d\<close> is that text for the hex
  digits \<open>d\<close>, and \<open>hxs\<close> writes a run of them.
\<close>

definition hx :: "string \<Rightarrow> string" where
  "hx d = CHR 0x5C # CHR ''x'' # d"

definition hxs :: "string list \<Rightarrow> string" where
  "hxs ds = concat (map hx ds)"

text \<open>
  The map literal \<^verbatim>\<open>configs\<close>, entry by entry in the order of the source text. The
  association list has no repeated key, so \<open>map_of\<close> is the lookup \<^verbatim>\<open>configs[arch]\<close>.
\<close>

definition configs_table :: "(string \<times> config) list" where
  "configs_table = [
    (''amd64'',
      \<lparr>binary = ''qemu-x86_64'',
       magic = hxs [''7f''] @ ''ELF'' @ hxs [''02'', ''01'', ''01'', ''00'', ''00'', ''00'', ''00'', ''00'', ''00'', ''00'', ''00'', ''00'', ''02'', ''00'', ''3e'', ''00''],
       mask_f = hxs [''ff'', ''ff'', ''ff'', ''ff'', ''ff'', ''fe'', ''fe'', ''00'', ''ff'', ''ff'', ''ff'', ''ff'', ''ff'', ''ff'', ''ff'', ''ff'', ''fe'', ''ff'', ''ff'', ''ff'']\<rparr>),
    (''arm64'',
      \<lparr>binary = ''qemu-aarch64'',
       magic = hxs [''7f''] @ ''ELF'' @ hxs [''02'', ''01'', ''01'', ''00'', ''00'', ''00'', ''00'', ''00'', ''00'', ''00'', ''00'', ''00'', ''02'', ''00'', ''b7'', ''00''],
       mask_f = hxs [''ff'', ''ff'', ''ff'', ''ff'', ''ff'', ''ff'', ''ff'', ''00'', ''ff'', ''ff'', ''ff'', ''ff'', ''ff'', ''ff'', ''ff'', ''ff'', ''fe'', ''ff'', ''ff'', ''ff'']\<rparr>),
    (''arm'',
      \<lparr>binary = ''qemu-arm'',
       magic = hxs [''7f''] @ ''ELF'' @ hxs [''01'', ''01'', ''01'', ''00'', ''00'', ''00'', ''00'', ''00'', ''00'', ''00'', ''00'', ''00'', ''02'', ''00'', ''28'', ''00''],
       mask_f = hxs [''ff'', ''ff'', ''ff'', ''ff'', ''ff'', ''ff'', ''ff'', ''00'', ''ff'', ''ff'', ''ff'', ''ff'', ''ff'', ''ff'', ''ff'', ''ff'', ''fe'', ''ff'', ''ff'', ''ff'']\<rparr>),
    (''s390x'',
      \<lparr>binary = ''qemu-s390x'',
       magic = hxs [''7f''] @ ''ELF'' @ hxs [''02'', ''02'', ''01'', ''00'', ''00'', ''00'', ''00'', ''00'', ''00'', ''00'', ''00'', ''00'', ''00'', ''02'', ''00'', ''16''],
       mask_f = hxs [''ff'', ''ff'', ''ff'', ''ff'', ''ff'', ''ff'', ''ff'', ''00'', ''ff'', ''ff'', ''ff'', ''ff'', ''ff'', ''ff'', ''ff'', ''ff'', ''ff'', ''fe'', ''ff'', ''ff'']\<rparr>),
    (''ppc64le'',
      \<lparr>binary = ''qemu-ppc64le'',
       magic = hxs [''7f''] @ ''ELF'' @ hxs [''02'', ''01'', ''01'', ''00'', ''00'', ''00'', ''00'', ''00'', ''00'', ''00'', ''00'', ''00'', ''02'', ''00'', ''15'', ''00''],
       mask_f = hxs [''ff'', ''ff'', ''ff'', ''ff'', ''ff'', ''ff'', ''ff'', ''00'', ''ff'', ''ff'', ''ff'', ''ff'', ''ff'', ''ff'', ''ff'', ''ff'', ''fe'', ''ff'', ''ff'', ''00'']\<rparr>),
    (''riscv64'',
      \<lparr>binary = ''qemu-riscv64'',
       magic = hxs [''7f''] @ ''ELF'' @ hxs [''02'', ''01'', ''01'', ''00'', ''00'', ''00'', ''00'', ''00'', ''00'', ''00'', ''00'', ''00'', ''02'', ''00'', ''f3'', ''00''],
       mask_f = hxs [''ff'', ''ff'', ''ff'', ''ff'', ''ff'', ''ff'', ''ff'', ''00'', ''ff'', ''ff'', ''ff'', ''ff'', ''ff'', ''ff'', ''ff'', ''ff'', ''fe'', ''ff'', ''ff'', ''ff'']\<rparr>),
    (''386'',
      \<lparr>binary = ''qemu-i386'',
       magic = hxs [''7f''] @ ''ELF'' @ hxs [''01'', ''01'', ''01'', ''00'', ''00'', ''00'', ''00'', ''00'', ''00'', ''00'', ''00'', ''00'', ''02'', ''00'', ''03'', ''00''],
       mask_f = hxs [''ff'', ''ff'', ''ff'', ''ff'', ''ff'', ''fe'', ''fe'', ''00'', ''ff'', ''ff'', ''ff'', ''ff'', ''ff'', ''ff'', ''ff'', ''ff'', ''fe'', ''ff'', ''ff'', ''ff'']\<rparr>),
    (''mips64le'',
      \<lparr>binary = ''qemu-mips64el'',
       magic = hxs [''7f''] @ ''ELF'' @ hxs [''02'', ''01'', ''01'', ''00'', ''00'', ''00'', ''00'', ''00'', ''00'', ''00'', ''00'', ''00'', ''02'', ''00'', ''08'', ''00''],
       mask_f = hxs [''ff'', ''ff'', ''ff'', ''ff'', ''ff'', ''ff'', ''ff'', ''00'', ''00'', ''ff'', ''ff'', ''ff'', ''ff'', ''ff'', ''ff'', ''ff'', ''fe'', ''ff'', ''ff'', ''ff'']\<rparr>),
    (''mips64'',
      \<lparr>binary = ''qemu-mips64'',
       magic = hxs [''7f''] @ ''ELF'' @ hxs [''02'', ''02'', ''01'', ''00'', ''00'', ''00'', ''00'', ''00'', ''00'', ''00'', ''00'', ''00'', ''00'', ''02'', ''00'', ''08''],
       mask_f = hxs [''ff'', ''ff'', ''ff'', ''ff'', ''ff'', ''ff'', ''ff'', ''00'', ''00'', ''ff'', ''ff'', ''ff'', ''ff'', ''ff'', ''ff'', ''ff'', ''ff'', ''fe'', ''ff'', ''ff'']\<rparr>),
    (''loong64'',
      \<lparr>binary = ''qemu-loongarch64'',
       magic = hxs [''7f''] @ ''ELF'' @ hxs [''02'', ''01'', ''01'', ''00'', ''00'', ''00'', ''00'', ''00'', ''00'', ''00'', ''00'', ''00'', ''02'', ''00'', ''02'', ''01''],
       mask_f = hxs [''ff'', ''ff'', ''ff'', ''ff'', ''ff'', ''ff'', ''ff'', ''fc'', ''00'', ''ff'', ''ff'', ''ff'', ''ff'', ''ff'', ''ff'', ''ff'', ''fe'', ''ff'', ''ff'', ''ff'']\<rparr>)]"

definition configs :: "string \<rightharpoonup> config" where
  "configs = map_of configs_table"

subsection \<open>How the kernel reads a magic and a mask\<close>

text \<open>
  The registration line carries the escaped text; the kernel turns every \<^verbatim>\<open>\xH\<close> or
  \<^verbatim>\<open>\xHH\<close> into one byte before it compares anything. \<open>hex_to_bin\<close> is the value of
  one hex digit, \<open>unescape\<close> the decoding of a whole field: a backslash that does not
  start a hex escape is kept together with the character after it.
\<close>

definition hex_to_bin :: "char \<Rightarrow> nat option" where
  "hex_to_bin c = (let n = (of_char c :: nat) in
     if 48 \<le> n \<and> n \<le> 57 then Some (n - 48)
     else if 97 \<le> n \<and> n \<le> 102 then Some (n - 87)
     else if 65 \<le> n \<and> n \<le> 70 then Some (n - 55)
     else None)"

fun unescape :: "string \<Rightarrow> 8 word list" where
  "unescape [] = []"
| "unescape (c # cs) =
     (if c = CHR 0x5C then
        (case cs of
           [] \<Rightarrow> [of_char c]
         | x # q \<Rightarrow>
             (if x = CHR ''x'' then
                (case q of
                   [] \<Rightarrow> [of_char c, of_char x]
                 | h # q' \<Rightarrow>
                     (case hex_to_bin h of
                        None \<Rightarrow> of_char c # of_char x # unescape q
                      | Some hv \<Rightarrow>
                          (case q' of
                             [] \<Rightarrow> [of_nat hv]
                           | l # q'' \<Rightarrow>
                               (case hex_to_bin l of
                                  None \<Rightarrow> of_nat hv # unescape q'
                                | Some lv \<Rightarrow> of_nat (hv * 16 + lv) # unescape q''))))
              else of_char c # of_char x # unescape q))
      else of_char c # unescape cs)"

text \<open>
  A file whose first bytes are \<open>buf\<close> is dispatched to an entry when every byte agrees
  with the magic on the bits the mask selects (offset 0, as every record of this
  program has it). An entry whose mask and magic differ in length is never registered,
  so it matches nothing.
\<close>

definition matches :: "8 word list \<Rightarrow> config \<Rightarrow> bool" where
  "matches buf c =
     (let m = unescape (magic c); k = unescape (mask_f c)
      in length k = length m \<and> length m \<le> length buf \<and>
         list_all (\<lambda>(b, g, k). (b XOR g) AND k = 0) (zip buf (zip m k)))"

text \<open>
  Two entries are told apart at byte \<open>i\<close> when both masks select a bit there on which
  the two magics differ. \<open>differ\<close> looks for such a byte in two decoded pairs.
\<close>

definition separated_at :: "config \<Rightarrow> config \<Rightarrow> nat \<Rightarrow> bool" where
  "separated_at a b i =
     (let ma = unescape (magic a); ka = unescape (mask_f a);
          mb = unescape (magic b); kb = unescape (mask_f b)
      in i < length ma \<and> i < length ka \<and> i < length mb \<and> i < length kb \<and>
         (ma ! i XOR mb ! i) AND ka ! i AND kb ! i \<noteq> 0)"

definition differ :: "8 word list \<Rightarrow> 8 word list \<Rightarrow> 8 word list \<Rightarrow> 8 word list \<Rightarrow> bool" where
  "differ ma ka mb kb =
     list_ex (\<lambda>((ga, ka), (gb, kb)). (ga XOR gb) AND ka AND kb \<noteq> 0)
       (zip (zip ma ka) (zip mb kb))"

definition decoded :: "(string \<times> 8 word list \<times> 8 word list) list" where
  "decoded = map (\<lambda>(n, c). (n, unescape (magic c), unescape (mask_f c))) configs_table"

section \<open>Strings and paths\<close>

text \<open>
  The functions of the Go packages \<^verbatim>\<open>strings\<close> and \<^verbatim>\<open>path/filepath\<close> that the
  program calls, on byte strings and with \<^verbatim>\<open>/\<close> as the separator (the program is
  built for Linux only).
\<close>

definition HasPrefix :: "string \<Rightarrow> string \<Rightarrow> bool" where
  "HasPrefix s prefix = (length prefix \<le> length s \<and> take (length prefix) s = prefix)"

definition HasSuffix :: "string \<Rightarrow> string \<Rightarrow> bool" where
  "HasSuffix s suffix =
     (length suffix \<le> length s \<and> drop (length s - length suffix) s = suffix)"

definition TrimPrefix :: "string \<Rightarrow> string \<Rightarrow> string" where
  "TrimPrefix s prefix = (if HasPrefix s prefix then drop (length prefix) s else s)"

fun Split :: "string \<Rightarrow> char \<Rightarrow> string list" where
  "Split [] sep = [[]]"
| "Split (c # cs) sep =
     (if c = sep then [] # Split cs sep
      else (case Split cs sep of [] \<Rightarrow> [[c]] | w # ws \<Rightarrow> (c # w) # ws))"

fun join_with :: "string \<Rightarrow> string list \<Rightarrow> string" where
  "join_with sep [] = []"
| "join_with sep [e] = e"
| "join_with sep (e # es) = e @ sep @ join_with sep es"

text \<open>
  \<^verbatim>\<open>filepath.Clean\<close>, element by element: empty elements and \<^verbatim>\<open>.\<close> are dropped, \<^verbatim>\<open>..\<close>
  removes the element before it when there is one, is dropped at the root and is kept
  at the start of a relative path.
\<close>

fun clean_elems :: "bool \<Rightarrow> string list \<Rightarrow> string list \<Rightarrow> string list" where
  "clean_elems rooted out [] = out"
| "clean_elems rooted out (e # es) =
     (if e = [] \<or> e = ''.'' then clean_elems rooted out es
      else if e = ''..'' then
        (if out \<noteq> [] \<and> last out \<noteq> ''..'' then clean_elems rooted (butlast out) es
         else if \<not> rooted then clean_elems rooted (out @ [e]) es
         else clean_elems rooted out es)
      else clean_elems rooted (out @ [e]) es)"

definition Clean :: "string \<Rightarrow> string" where
  "Clean path =
     (let rooted = (path \<noteq> [] \<and> hd path = CHR ''/'');
          r = (if rooted then ''/'' else []) @
              join_with ''/'' (clean_elems rooted [] (Split path (CHR ''/'')))
      in if r = [] then ''.'' else r)"

definition Join :: "string list \<Rightarrow> string" where
  "Join elem =
     (case dropWhile (\<lambda>e. e = []) elem of
        [] \<Rightarrow> []
      | es \<Rightarrow> Clean (join_with ''/'' es))"

definition Base :: "string \<Rightarrow> string" where
  "Base path =
     (if path = [] then ''.''
      else let p = rev (dropWhile (\<lambda>c. c = CHR ''/'') (rev path));
               b = rev (takeWhile (\<lambda>c. c \<noteq> CHR ''/'') (rev p))
           in if b = [] then ''/'' else b)"

section \<open>The host\<close>

text \<open>
  Error values. \<open>PathError\<close> is what package \<^verbatim>\<open>os\<close> returns (operation, path, errno),
  \<open>Errno\<close> a bare system-call error; the others are the errors the program builds
  itself, each with the arguments of its format string.
\<close>

datatype errno = EPERM | ENOENT | EIO | EACCES | EEXIST | EBUSY | EINVAL

datatype error =
    PathError string string errno
  | Errno errno
  | BadPlatform string
  | NotFound
  | UnsupportedArchitecture string
  | PrefixHasSeparator
  | ENOENT_opening string
  | EPERM_opening string
  | CannotOpen string error
  | AlreadyRegistered string
  | CannotRegister string string error
  | CannotMount error string

text \<open>
  \<open>pathErrIs err e\<close> is the test
  \<^verbatim>\<open>errors.As(err, &pathErr) && errors.Is(pathErr.Err, e)\<close>.
\<close>

fun pathErrIs :: "error \<Rightarrow> errno \<Rightarrow> bool" where
  "pathErrIs (PathError op p e) x = (e = x)"
| "pathErrIs _ x = False"

text \<open>The only field of an OCI platform this program reads is the architecture.\<close>

record platform =
  OS :: string
  Architecture :: string
  Variant :: string

text \<open>
  What the process can observe of its run: every call into the operating system, every
  log line (\<open>EvLog\<close>, written to standard error), the status object it prints
  (\<open>EvPrint\<close>, written to standard output), and the message of package \<^verbatim>\<open>flag\<close> for
  a command line it does not accept (\<open>EvUsage\<close>, written to standard error).
\<close>

datatype logline =
    LogVersion
  | LogUninstall string "error option"
  | LogInstall string "error option"
  | LogError error

datatype event =
    EvStat string
  | EvReadDir string
  | EvReadFile string
  | EvGlob string
  | EvOpen string
  | EvWrite string string
  | EvClose string
  | EvWriteFile string string
  | EvMount string
  | EvUnmount string
  | EvSupportedPlatforms
  | EvLog logline
  | EvPrint "string list" "string list"
  | EvUsage

text \<open>
  Everything outside the program is a parameter: the environment variables, the kernel
  and file system with a state of type \<open>'s\<close>, the packages \<^verbatim>\<open>platforms\<close> and
  \<^verbatim>\<open>archutil\<close>, and the order in which the runtime walks the map \<^verbatim>\<open>configs\<close>.
  Calls that only read are functions of the state; calls that may change it return the
  new state.
\<close>

record 's host =
  Getenv :: "string \<Rightarrow> string"
  os_Stat :: "'s \<Rightarrow> string \<Rightarrow> error option"
  os_ReadDir :: "'s \<Rightarrow> string \<Rightarrow> error + string list"
  os_ReadFile :: "'s \<Rightarrow> string \<Rightarrow> error + string"
  filepath_Glob :: "'s \<Rightarrow> string \<Rightarrow> string list option"
  os_OpenFile :: "'s \<Rightarrow> string \<Rightarrow> error option"
  file_Write :: "'s \<Rightarrow> string \<Rightarrow> string \<Rightarrow> error option \<times> 's"
  os_WriteFile :: "'s \<Rightarrow> string \<Rightarrow> string \<Rightarrow> error option \<times> 's"
  syscall_Mount :: "'s \<Rightarrow> string \<Rightarrow> error option \<times> 's"
  syscall_Unmount :: "'s \<Rightarrow> string \<Rightarrow> 's"
  archutil_SupportedPlatforms :: "'s \<Rightarrow> platform list"
  platforms_Normalize :: "platform \<Rightarrow> platform"
  platforms_FormatAll :: "platform \<Rightarrow> string"
  platforms_Parse :: "string \<Rightarrow> error + platform"
  range_configs :: "string list"

text \<open>The command-line flags, the program's global variables.\<close>

record flags =
  mount :: string
  toInstall :: string
  toUninstall :: string
  flVersion :: bool

text \<open>The state threaded through the program: the host's state and the trace so far.\<close>

record 's sys =
  kernel :: 's
  trace :: "event list"

definition emit :: "event \<Rightarrow> 's sys \<Rightarrow> 's sys" where
  "emit e \<sigma> = \<sigma>\<lparr>trace := trace \<sigma> @ [e]\<rparr>"

section \<open>The program\<close>

subsection \<open>uninstall\<close>

fun uninstall_loop ::
  "'s host \<Rightarrow> flags \<Rightarrow> string \<Rightarrow> string list \<Rightarrow> 's sys \<Rightarrow> error option \<times> 's sys" where
  "uninstall_loop h fl arch [] \<sigma> = (Some NotFound, \<sigma>)"
| "uninstall_loop h fl arch (fi # fis) \<sigma> =
     (if fi = ''register'' \<or> fi = ''status'' \<or> fi = ''WSLInterop''
      then uninstall_loop h fl arch fis \<sigma>
      else if fi = arch \<or> HasSuffix fi (''-'' @ arch)
      then (let p = Join [mount fl, fi];
                (r, k) = os_WriteFile h (kernel \<sigma>) p ''-1''
            in (r, emit (EvWriteFile p ''-1'') (\<sigma>\<lparr>kernel := k\<rparr>)))
      else uninstall_loop h fl arch fis \<sigma>)"

definition uninstall :: "'s host \<Rightarrow> flags \<Rightarrow> string \<Rightarrow> 's sys \<Rightarrow> error option \<times> 's sys" where
  "uninstall h fl arch \<sigma> =
     (let \<sigma>1 = emit (EvReadDir (mount fl)) \<sigma>
      in case os_ReadDir h (kernel \<sigma>) (mount fl) of
           Inl err \<Rightarrow> (Some err, \<sigma>1)
         | Inr fis \<Rightarrow> uninstall_loop h fl arch fis \<sigma>1)"

subsection \<open>getBinaryNames and install\<close>

definition getBinaryNames :: "'s host \<Rightarrow> config \<Rightarrow> error + string \<times> string" where
  "getBinaryNames h cfg =
     (let binaryPath =
            (if Getenv h ''QEMU_BINARY_PATH'' \<noteq> [] then Getenv h ''QEMU_BINARY_PATH''
             else ''/usr/bin'');
          binaryPrefix = Getenv h ''QEMU_BINARY_PREFIX''
      in if binaryPrefix \<noteq> [] \<and> CHR ''/'' \<in> set binaryPrefix then Inl PrefixHasSeparator
         else let binaryBasename =
                    (if binaryPrefix \<noteq> [] then binaryPrefix @ binary cfg else binary cfg)
              in Inr (binaryBasename, Join [binaryPath, binaryBasename]))"

definition install :: "'s host \<Rightarrow> flags \<Rightarrow> string \<Rightarrow> 's sys \<Rightarrow> error option \<times> 's sys" where
  "install h fl arch \<sigma> =
     (case configs arch of
        None \<Rightarrow> (Some (UnsupportedArchitecture arch), \<sigma>)
      | Some cfg \<Rightarrow>
          (let register = Join [mount fl, ''register''];
               \<sigma>1 = emit (EvOpen register) \<sigma>
           in case os_OpenFile h (kernel \<sigma>) register of
                Some err \<Rightarrow>
                  (Some (if pathErrIs err ENOENT then ENOENT_opening register
                         else if pathErrIs err EPERM then EPERM_opening register
                         else CannotOpen register err), \<sigma>1)
              | None \<Rightarrow>
                  (let flags = ''CF'' @ (if Getenv h ''QEMU_PRESERVE_ARGV0'' \<noteq> [] then ''P'' else [])
                   in case getBinaryNames h cfg of
                        Inl err \<Rightarrow> (Some err, emit (EvClose register) \<sigma>1)
                      | Inr (binaryBasename, binaryFullpath) \<Rightarrow>
                          (let line = '':'' @ binaryBasename @ '':M:0:'' @ magic cfg @ '':'' @
                                      mask_f cfg @ '':'' @ binaryFullpath @ '':'' @ flags;
                               (r, k) = file_Write h (kernel \<sigma>1) register line;
                               \<sigma>2 = emit (EvClose register)
                                      (emit (EvWrite register line) (\<sigma>1\<lparr>kernel := k\<rparr>))
                           in case r of
                                None \<Rightarrow> (None, \<sigma>2)
                              | Some err \<Rightarrow>
                                  (Some (if pathErrIs err EEXIST
                                         then AlreadyRegistered binaryBasename
                                         else CannotRegister binaryFullpath register err),
                                   \<sigma>2)))))"

subsection \<open>printStatus\<close>

definition formatPlatforms :: "'s host \<Rightarrow> platform list \<Rightarrow> string list" where
  "formatPlatforms h p = map (\<lambda>pp. platforms_FormatAll h (platforms_Normalize h pp)) p"

fun printStatus_loop ::
  "'s host \<Rightarrow> flags \<Rightarrow> string list \<Rightarrow> string list \<Rightarrow> 's sys \<Rightarrow> (error + string list) \<times> 's sys" where
  "printStatus_loop h fl [] emulators \<sigma> = (Inr emulators, \<sigma>)"
| "printStatus_loop h fl (f # fis) emulators \<sigma> =
     (if f = ''register'' \<or> f = ''status'' then printStatus_loop h fl fis emulators \<sigma>
      else (let p = Join [mount fl, f];
                \<sigma>1 = emit (EvReadFile p) \<sigma>
            in case os_ReadFile h (kernel \<sigma>) p of
                 Inl err \<Rightarrow> (Inl err, \<sigma>1)
               | Inr dt \<Rightarrow>
                   printStatus_loop h fl fis
                     (if HasPrefix dt ''enabled'' then emulators @ [f] else emulators) \<sigma>1))"

definition printStatus :: "'s host \<Rightarrow> flags \<Rightarrow> 's sys \<Rightarrow> error option \<times> 's sys" where
  "printStatus h fl \<sigma> =
     (let \<sigma>1 = emit (EvReadDir (mount fl)) \<sigma>
      in case os_ReadDir h (kernel \<sigma>) (mount fl) of
           Inl err \<Rightarrow> (Some err, \<sigma>1)
         | Inr fis \<Rightarrow>
             (case printStatus_loop h fl fis [] \<sigma>1 of
                (Inl err, \<sigma>2) \<Rightarrow> (Some err, \<sigma>2)
              | (Inr emulators, \<sigma>2) \<Rightarrow>
                  (let supported = formatPlatforms h (archutil_SupportedPlatforms h (kernel \<sigma>2))
                   in (None, emit (EvPrint supported emulators) (emit EvSupportedPlatforms \<sigma>2)))))"

subsection \<open>parseArch, parseUninstall and allArch\<close>

definition parseArch :: "'s host \<Rightarrow> string \<Rightarrow> string list" where
  "parseArch h inp =
     (if inp = [] then []
      else map (\<lambda>v. case platforms_Parse h v of Inl err \<Rightarrow> v | Inr p \<Rightarrow> Architecture p)
             (Split inp (CHR '','')))"

fun parseUninstall_loop ::
  "'s host \<Rightarrow> flags \<Rightarrow> string list \<Rightarrow> string list \<Rightarrow> 's sys \<Rightarrow> string list \<times> 's sys" where
  "parseUninstall_loop h fl [] out \<sigma> = (out, \<sigma>)"
| "parseUninstall_loop h fl (v0 # vs) out \<sigma> =
     (let v = (case platforms_Parse h v0 of
                 Inl err \<Rightarrow> v0
               | Inr p \<Rightarrow>
                   (case configs (Architecture p) of
                      None \<Rightarrow> v0
                    | Some c \<Rightarrow> TrimPrefix (binary c) ''qemu-''));
          pat = Join [mount fl, v];
          \<sigma>1 = emit (EvGlob pat) \<sigma>
      in case filepath_Glob h (kernel \<sigma>) pat of
           None \<Rightarrow> parseUninstall_loop h fl vs (out @ [v]) \<sigma>1
         | Some fis \<Rightarrow>
             parseUninstall_loop h fl vs
               ((if fis = [] then out @ [v] else out) @ map Base fis) \<sigma>1)"

definition parseUninstall :: "'s host \<Rightarrow> flags \<Rightarrow> string \<Rightarrow> 's sys \<Rightarrow> string list \<times> 's sys" where
  "parseUninstall h fl inp \<sigma> =
     (if inp = [] then ([], \<sigma>) else parseUninstall_loop h fl (Split inp (CHR '','')) [] \<sigma>)"

text \<open>
  \<open>allArch_native\<close> is the first loop of \<^verbatim>\<open>allArch\<close>: the architectures of the
  platforms the host runs, a parse error being logged. \<open>allArch_loop\<close> is the second,
  over the keys of \<^verbatim>\<open>configs\<close> in the runtime's order; \<^verbatim>\<open>configs[name]\<close> on a missing key
  is Go's zero value.
\<close>

fun allArch_native ::
  "'s host \<Rightarrow> string list \<Rightarrow> string list \<Rightarrow> 's sys \<Rightarrow> string list \<times> 's sys" where
  "allArch_native h [] m \<sigma> = (m, \<sigma>)"
| "allArch_native h (pp # pps) m \<sigma> =
     (case platforms_Parse h pp of
        Inr p \<Rightarrow> allArch_native h pps (m @ [Architecture p]) \<sigma>
      | Inl err \<Rightarrow> allArch_native h pps m (emit (EvLog (LogError err)) \<sigma>))"

definition configs_index :: "string \<Rightarrow> config" where
  "configs_index name =
     (case configs name of
        Some c \<Rightarrow> c
      | None \<Rightarrow> \<lparr>binary = [], magic = [], mask_f = []\<rparr>)"

fun allArch_loop ::
  "'s host \<Rightarrow> string list \<Rightarrow> string list \<Rightarrow> string list \<Rightarrow> 's sys \<Rightarrow> string list \<times> 's sys" where
  "allArch_loop h m [] out \<sigma> = (out, \<sigma>)"
| "allArch_loop h m (name # names) out \<sigma> =
     (if name \<in> set m then allArch_loop h m names out \<sigma>
      else (case getBinaryNames h (configs_index name) of
              Inr (b, fullPath) \<Rightarrow>
                (if os_Stat h (kernel \<sigma>) fullPath = None
                 then allArch_loop h m names (out @ [name]) (emit (EvStat fullPath) \<sigma>)
                 else allArch_loop h m names out (emit (EvStat fullPath) \<sigma>))
            | Inl err \<Rightarrow> allArch_loop h m names (out @ [name]) \<sigma>))"

definition allArch :: "'s host \<Rightarrow> 's sys \<Rightarrow> string list \<times> 's sys" where
  "allArch h \<sigma> =
     (let supported = formatPlatforms h (archutil_SupportedPlatforms h (kernel \<sigma>));
          (m, \<sigma>1) = allArch_native h supported [] (emit EvSupportedPlatforms \<sigma>)
      in allArch_loop h m (range_configs h) [] \<sigma>1)"

subsection \<open>run\<close>

fun uninstall_all :: "'s host \<Rightarrow> flags \<Rightarrow> string list \<Rightarrow> 's sys \<Rightarrow> 's sys" where
  "uninstall_all h fl [] \<sigma> = \<sigma>"
| "uninstall_all h fl (name # names) \<sigma> =
     (case uninstall h fl name \<sigma> of
        (err, \<sigma>1) \<Rightarrow> uninstall_all h fl names (emit (EvLog (LogUninstall name err)) \<sigma>1))"

fun install_all :: "'s host \<Rightarrow> flags \<Rightarrow> string list \<Rightarrow> 's sys \<Rightarrow> 's sys" where
  "install_all h fl [] \<sigma> = \<sigma>"
| "install_all h fl (name # names) \<sigma> =
     (case install h fl name \<sigma> of
        (err, \<sigma>1) \<Rightarrow> install_all h fl names (emit (EvLog (LogInstall name err)) \<sigma>1))"

text \<open>What \<^verbatim>\<open>run\<close> does once the file system is known to be mounted.\<close>

definition run_mounted :: "'s host \<Rightarrow> flags \<Rightarrow> 's sys \<Rightarrow> error option \<times> 's sys" where
  "run_mounted h fl \<sigma> =
     (let (names, \<sigma>1) = parseUninstall h fl (toUninstall fl) \<sigma>;
          \<sigma>2 = uninstall_all h fl names \<sigma>1;
          (installArchs, \<sigma>3) =
             (if toInstall fl = ''all'' then allArch h \<sigma>2
              else (parseArch h (toInstall fl), \<sigma>2));
          \<sigma>4 = install_all h fl installArchs \<sigma>3
      in printStatus h fl \<sigma>4)"

definition run :: "'s host \<Rightarrow> flags \<Rightarrow> 's sys \<Rightarrow> error option \<times> 's sys" where
  "run h fl \<sigma> =
     (if flVersion fl then (None, emit (EvLog LogVersion) \<sigma>)
      else (let status = Join [mount fl, ''status''];
                \<sigma>1 = emit (EvStat status) \<sigma>
            in case os_Stat h (kernel \<sigma>) status of
                 None \<Rightarrow> run_mounted h fl \<sigma>1
               | Some e \<Rightarrow>
                   (let (r, k) = syscall_Mount h (kernel \<sigma>1) (mount fl);
                        \<sigma>2 = emit (EvMount (mount fl)) (\<sigma>1\<lparr>kernel := k\<rparr>)
                    in case r of
                         Some err \<Rightarrow> (Some (CannotMount err (mount fl)), \<sigma>2)
                       | None \<Rightarrow>
                           (case run_mounted h fl \<sigma>2 of
                              (res, \<sigma>3) \<Rightarrow>
                                (res, emit (EvUnmount (mount fl))
                                        (\<sigma>3\<lparr>kernel := syscall_Unmount h (kernel \<sigma>3) (mount fl)\<rparr>))))))"

subsection \<open>The process\<close>








section \<open>A small host for concrete runs\<close>

text \<open>
  A host with just enough behaviour to run the program on concrete inputs. Its state is
  the content of the mount point: \<open>None\<close> while binfmt_misc is not mounted, otherwise
  the entries with their content, in directory order. Writing a record to
  \<^verbatim>\<open>register\<close> adds an enabled entry under the record's name, writing \<^verbatim>\<open>-1\<close> to an
  entry removes it. The parameters are the environment, the paths of the emulator
  binaries that exist, and whether mounting is permitted.
\<close>

type_synonym binfmt = "(string \<times> string) list option"

definition mnt :: string where
  "mnt = ''/proc/sys/fs/binfmt_misc''"

definition demo_entries :: "binfmt \<Rightarrow> (string \<times> string) list" where
  "demo_entries k = (case k of None \<Rightarrow> [] | Some es \<Rightarrow> es)"

definition demo_exists :: "string list \<Rightarrow> binfmt \<Rightarrow> string \<Rightarrow> bool" where
  "demo_exists bins k p =
     (p \<in> set bins \<or> p \<in> set (map (\<lambda>(n, c). Join [mnt, n]) (demo_entries k)))"

definition demo_Parse :: "string \<Rightarrow> error + platform" where
  "demo_Parse s =
     (case Split s (CHR ''/'') of
        [a] \<Rightarrow> (if a \<in> set (map fst configs_table)
                then Inr \<lparr>OS = ''linux'', Architecture = a, Variant = []\<rparr>
                else Inl (BadPlatform s))
      | [os, a] \<Rightarrow> Inr \<lparr>OS = os, Architecture = a, Variant = []\<rparr>
      | [os, a, v] \<Rightarrow> Inr \<lparr>OS = os, Architecture = a, Variant = v\<rparr>
      | _ \<Rightarrow> Inl (BadPlatform s))"

definition demo_register :: "binfmt \<Rightarrow> string \<Rightarrow> string \<Rightarrow> error option \<times> binfmt" where
  "demo_register k p line =
     (let name = takeWhile (\<lambda>c. c \<noteq> CHR '':'') (drop 1 line)
      in if name \<in> set (map fst (demo_entries k)) then (Some (PathError ''write'' p EEXIST), k)
         else (None, Some (demo_entries k @ [(name, ''enabled'')])))"

definition demo_WriteFile :: "binfmt \<Rightarrow> string \<Rightarrow> string \<Rightarrow> error option \<times> binfmt" where
  "demo_WriteFile k p dat =
     (if dat = ''-1'' \<and> p \<in> set (map (\<lambda>(n, c). Join [mnt, n]) (demo_entries k))
      then (None, Some (filter (\<lambda>(n, c). Join [mnt, n] \<noteq> p) (demo_entries k)))
      else (Some (PathError ''open'' p ENOENT), k))"

definition demo_host :: "(string \<Rightarrow> string) \<Rightarrow> string list \<Rightarrow> bool \<Rightarrow> binfmt host" where
  "demo_host env bins can_mount =
     \<lparr>Getenv = env,
      os_Stat = (\<lambda>k p. if demo_exists bins k p then None else Some (PathError ''stat'' p ENOENT)),
      os_ReadDir = (\<lambda>k p. if p = mnt then Inr (map fst (demo_entries k))
                           else Inl (PathError ''open'' p ENOENT)),
      os_ReadFile = (\<lambda>k p. case map_of (map (\<lambda>(n, c). (Join [mnt, n], c)) (demo_entries k)) p of
                              Some c \<Rightarrow> Inr c
                            | None \<Rightarrow> Inl (PathError ''open'' p ENOENT)),
      filepath_Glob = (\<lambda>k p. Some (if demo_exists bins k p then [p] else [])),
      os_OpenFile = (\<lambda>k p. if demo_exists bins k p then None
                            else Some (PathError ''open'' p ENOENT)),
      file_Write = demo_register,
      os_WriteFile = demo_WriteFile,
      syscall_Mount = (\<lambda>k p. if can_mount then (None, Some [(''register'', []), (''status'', ''enabled'')])
                              else (Some (Errno EPERM), k)),
      syscall_Unmount = (\<lambda>k p. None),
      archutil_SupportedPlatforms = (\<lambda>k. [\<lparr>OS = ''linux'', Architecture = ''amd64'', Variant = []\<rparr>,
                                          \<lparr>OS = ''linux'', Architecture = ''386'', Variant = []\<rparr>]),
      platforms_Normalize = (\<lambda>p. p),
      platforms_FormatAll = (\<lambda>p. OS p @ ''/'' @ Architecture p @
                                   (if Variant p = [] then [] else ''/'' @ Variant p)),
      platforms_Parse = demo_Parse,
      range_configs = map fst configs_table\<rparr>"

definition no_env :: "string \<Rightarrow> string" where
  "no_env v = []"

definition prefix_env :: "string \<Rightarrow> string" where
  "prefix_env v = (if v = ''QEMU_BINARY_PREFIX'' then ''../'' else [])"

definition demo_flags :: flags where
  "demo_flags = \<lparr>mount = mnt, toInstall = [], toUninstall = [], flVersion = False\<rparr>"

definition demo_mounted :: "binfmt sys" where
  "demo_mounted =
     \<lparr>kernel = Some [(''WSLInterop'', ''enabled''), (''qemu-aarch64'', ''enabled''),
                      (''qemu-arm'', ''disabled''), (''register'', []),
                      (''status'', ''enabled''), (''user-aarch64'', ''enabled'')],
      trace = []\<rparr>"

definition demo_unmounted :: "binfmt sys" where
  "demo_unmounted = \<lparr>kernel = None, trace = []\<rparr>"


section \<open>The vocabulary of the specification\<close>

text \<open>
  The entries \<^verbatim>\<open>uninstall\<close> never touches, and the specification's notion of an entry
  addressed by a target: its name is the target, or ends with a hyphen followed by the
  target.
\<close>

definition reserved :: "string \<Rightarrow> bool" where
  "reserved n = (n = ''register'' \<or> n = ''status'' \<or> n = ''WSLInterop'')"

definition addressed_by :: "string \<Rightarrow> string \<Rightarrow> bool" where
  "addressed_by target name = (name = target \<or> (\<exists>p. name = p @ ''-'' @ target))"

text \<open>
  The architectures the host runs natively, as \<^verbatim>\<open>allArch\<close> collects them: the
  architecture of every supported platform whose formatted name parses.
\<close>

definition native_archs :: "'s host \<Rightarrow> 's \<Rightarrow> string list" where
  "native_archs h k =
     concat (map (\<lambda>pp. case platforms_Parse h pp of Inr p \<Rightarrow> [Architecture p] | Inl err \<Rightarrow> [])
               (formatPlatforms h (archutil_SupportedPlatforms h k)))"

text \<open>The content of each entry of the mounted example.\<close>

definition demo_content :: "string \<Rightarrow> string" where
  "demo_content n = (case map_of (demo_entries (kernel demo_mounted)) n of Some c \<Rightarrow> c | None \<Rightarrow> [])"

section \<open>Facts about the table\<close>

lemma configs_in_table: "configs a = Some c \<Longrightarrow> (a, c) \<in> set configs_table"
  unfolding configs_def by (rule map_of_SomeD)

lemma decoded_eq: "decoded = [
    (''amd64'',
      [0x7f, 0x45, 0x4c, 0x46, 0x02, 0x01, 0x01, 0x00, 0x00, 0x00, 0x00, 0x00, 0x00, 0x00, 0x00, 0x00, 0x02, 0x00, 0x3e, 0x00],
      [0xff, 0xff, 0xff, 0xff, 0xff, 0xfe, 0xfe, 0x00, 0xff, 0xff, 0xff, 0xff, 0xff, 0xff, 0xff, 0xff, 0xfe, 0xff, 0xff, 0xff]),
    (''arm64'',
      [0x7f, 0x45, 0x4c, 0x46, 0x02, 0x01, 0x01, 0x00, 0x00, 0x00, 0x00, 0x00, 0x00, 0x00, 0x00, 0x00, 0x02, 0x00, 0xb7, 0x00],
      [0xff, 0xff, 0xff, 0xff, 0xff, 0xff, 0xff, 0x00, 0xff, 0xff, 0xff, 0xff, 0xff, 0xff, 0xff, 0xff, 0xfe, 0xff, 0xff, 0xff]),
    (''arm'',
      [0x7f, 0x45, 0x4c, 0x46, 0x01, 0x01, 0x01, 0x00, 0x00, 0x00, 0x00, 0x00, 0x00, 0x00, 0x00, 0x00, 0x02, 0x00, 0x28, 0x00],
      [0xff, 0xff, 0xff, 0xff, 0xff, 0xff, 0xff, 0x00, 0xff, 0xff, 0xff, 0xff, 0xff, 0xff, 0xff, 0xff, 0xfe, 0xff, 0xff, 0xff]),
    (''s390x'',
      [0x7f, 0x45, 0x4c, 0x46, 0x02, 0x02, 0x01, 0x00, 0x00, 0x00, 0x00, 0x00, 0x00, 0x00, 0x00, 0x00, 0x00, 0x02, 0x00, 0x16],
      [0xff, 0xff, 0xff, 0xff, 0xff, 0xff, 0xff, 0x00, 0xff, 0xff, 0xff, 0xff, 0xff, 0xff, 0xff, 0xff, 0xff, 0xfe, 0xff, 0xff]),
    (''ppc64le'',
      [0x7f, 0x45, 0x4c, 0x46, 0x02, 0x01, 0x01, 0x00, 0x00, 0x00, 0x00, 0x00, 0x00, 0x00, 0x00, 0x00, 0x02, 0x00, 0x15, 0x00],
      [0xff, 0xff, 0xff, 0xff, 0xff, 0xff, 0xff, 0x00, 0xff, 0xff, 0xff, 0xff, 0xff, 0xff, 0xff, 0xff, 0xfe, 0xff, 0xff, 0x00]),
    (''riscv64'',
      [0x7f, 0x45, 0x4c, 0x46, 0x02, 0x01, 0x01, 0x00, 0x00, 0x00, 0x00, 0x00, 0x00, 0x00, 0x00, 0x00, 0x02, 0x00, 0xf3, 0x00],
      [0xff, 0xff, 0xff, 0xff, 0xff, 0xff, 0xff, 0x00, 0xff, 0xff, 0xff, 0xff, 0xff, 0xff, 0xff, 0xff, 0xfe, 0xff, 0xff, 0xff]),
    (''386'',
      [0x7f, 0x45, 0x4c, 0x46, 0x01, 0x01, 0x01, 0x00, 0x00, 0x00, 0x00, 0x00, 0x00, 0x00, 0x00, 0x00, 0x02, 0x00, 0x03, 0x00],
      [0xff, 0xff, 0xff, 0xff, 0xff, 0xfe, 0xfe, 0x00, 0xff, 0xff, 0xff, 0xff, 0xff, 0xff, 0xff, 0xff, 0xfe, 0xff, 0xff, 0xff]),
    (''mips64le'',
      [0x7f, 0x45, 0x4c, 0x46, 0x02, 0x01, 0x01, 0x00, 0x00, 0x00, 0x00, 0x00, 0x00, 0x00, 0x00, 0x00, 0x02, 0x00, 0x08, 0x00],
      [0xff, 0xff, 0xff, 0xff, 0xff, 0xff, 0xff, 0x00, 0x00, 0xff, 0xff, 0xff, 0xff, 0xff, 0xff, 0xff, 0xfe, 0xff, 0xff, 0xff]),
    (''mips64'',
      [0x7f, 0x45, 0x4c, 0x46, 0x02, 0x02, 0x01, 0x00, 0x00, 0x00, 0x00, 0x00, 0x00, 0x00, 0x00, 0x00, 0x00, 0x02, 0x00, 0x08],
      [0xff, 0xff, 0xff, 0xff, 0xff, 0xff, 0xff, 0x00, 0x00, 0xff, 0xff, 0xff, 0xff, 0xff, 0xff, 0xff, 0xff, 0xfe, 0xff, 0xff]),
    (''loong64'',
      [0x7f, 0x45, 0x4c, 0x46, 0x02, 0x01, 0x01, 0x00, 0x00, 0x00, 0x00, 0x00, 0x00, 0x00, 0x00, 0x00, 0x02, 0x00, 0x02, 0x01],
      [0xff, 0xff, 0xff, 0xff, 0xff, 0xff, 0xff, 0xfc, 0x00, 0xff, 0xff, 0xff, 0xff, 0xff, 0xff, 0xff, 0xfe, 0xff, 0xff, 0xff])]"
  by (simp add: decoded_def configs_table_def hx_def hxs_def hex_to_bin_def)

lemma configs_in_decoded:
  assumes "configs a = Some c"
  shows "(a, unescape (magic c), unescape (mask_f c)) \<in> set decoded"
proof -
  from assms have "(a, c) \<in> set configs_table" by (rule configs_in_table)
  then have "(\<lambda>(n, c). (n, unescape (magic c), unescape (mask_f c))) (a, c) \<in> set decoded"
    unfolding decoded_def set_map by (rule imageI)
  then show ?thesis by simp
qed

lemma decoded_lengths: "list_all (\<lambda>(n, m, k). length m = 20 \<and> length k = 20) decoded"
  unfolding decoded_eq by simp

lemma decoded_differ:
  "list_all (\<lambda>(n1, m1, k1). list_all (\<lambda>(n2, m2, k2). n1 = n2 \<or> differ m1 k1 m2 k2) decoded)
     decoded"
  unfolding decoded_eq by (simp add: differ_def)

lemma configs_lengths:
  assumes "configs a = Some c"
  shows "length (unescape (magic c)) = 20" and "length (unescape (mask_f c)) = 20"
  using configs_in_decoded [OF assms] decoded_lengths
  by (auto simp: list_all_iff)

lemma configs_differ:
  assumes "configs a = Some ca" and "configs b = Some cb" and "a \<noteq> b"
  shows "differ (unescape (magic ca)) (unescape (mask_f ca))
           (unescape (magic cb)) (unescape (mask_f cb))"
  using configs_in_decoded [OF assms(1)] configs_in_decoded [OF assms(2)] assms(3) decoded_differ
  by (fastforce simp: list_all_iff)

lemma differ_nth:
  assumes "differ ma ka mb kb"
  shows "\<exists>i. i < length ma \<and> i < length ka \<and> i < length mb \<and> i < length kb \<and>
             (ma ! i XOR mb ! i) AND ka ! i AND kb ! i \<noteq> 0"
proof -
  let ?z = "zip (zip ma ka) (zip mb kb)"
  from assms obtain x where x: "x \<in> set ?z"
    and px: "(\<lambda>((ga, ka), (gb, kb)). (ga XOR gb) AND ka AND kb \<noteq> 0) x"
    by (auto simp: differ_def list_ex_iff)
  from x obtain i where i: "i < length ?z" and xi: "?z ! i = x"
    by (auto simp: in_set_conv_nth)
  from i have l: "i < length ma" "i < length ka" "i < length mb" "i < length kb" by simp_all
  from l xi have "x = ((ma ! i, ka ! i), (mb ! i, kb ! i))" by simp
  with px have "(ma ! i XOR mb ! i) AND ka ! i AND kb ! i \<noteq> 0" by simp
  with l show ?thesis by blast
qed

lemma masked_bits_differ:
  fixes b g1 g2 k1 k2 :: "8 word"
  assumes "(b XOR g1) AND k1 = 0" and "(b XOR g2) AND k2 = 0"
  shows "(g1 XOR g2) AND k1 AND k2 = 0"
proof (rule bit_eqI)
  fix n
  from assms(1) have a: "\<not> bit ((b XOR g1) AND k1) n" by simp
  from assms(2) have c: "\<not> bit ((b XOR g2) AND k2) n" by simp
  from a c show "bit ((g1 XOR g2) AND k1 AND k2) n = bit (0 :: 8 word) n"
    by (auto simp: bit_and_iff bit_xor_iff)
qed

lemma matches_nth:
  assumes "matches buf c" and "i < length (unescape (magic c))"
  shows "(buf ! i XOR unescape (magic c) ! i) AND unescape (mask_f c) ! i = 0"
proof -
  let ?m = "unescape (magic c)" and ?k = "unescape (mask_f c)"
  from assms(1) have len: "length ?k = length ?m" "length ?m \<le> length buf"
    and all: "list_all (\<lambda>(b, g, k). (b XOR g) AND k = 0) (zip buf (zip ?m ?k))"
    by (simp_all add: matches_def Let_def)
  from len assms(2) have i: "i < length (zip buf (zip ?m ?k))" by simp
  from all i have "(\<lambda>(b, g, k). (b XOR g) AND k = 0) (zip buf (zip ?m ?k) ! i)"
    by (simp add: list_all_length)
  with i show ?thesis by simp
qed

lemma separated_at_disjoint:
  assumes "separated_at a b i"
  shows "\<not> (matches buf a \<and> matches buf b)"
proof
  assume m: "matches buf a \<and> matches buf b"
  from assms have i: "i < length (unescape (magic a))" "i < length (unescape (magic b))"
    and d: "(unescape (magic a) ! i XOR unescape (magic b) ! i)
              AND unescape (mask_f a) ! i AND unescape (mask_f b) ! i \<noteq> 0"
    by (simp_all add: separated_at_def Let_def)
  from m i have "(buf ! i XOR unescape (magic a) ! i) AND unescape (mask_f a) ! i = 0"
    and "(buf ! i XOR unescape (magic b) ! i) AND unescape (mask_f b) ! i = 0"
    by (simp_all add: matches_nth)
  then have "(unescape (magic a) ! i XOR unescape (magic b) ! i)
               AND unescape (mask_f a) ! i AND unescape (mask_f b) ! i = 0"
    by (rule masked_bits_differ)
  with d show False by contradiction
qed

lemma configs_amd64:
  "configs ''amd64'' = Some (snd (configs_table ! 0))"
  by (simp add: configs_def configs_table_def)

lemma configs_arm64:
  "configs ''arm64'' = Some (snd (configs_table ! 1))"
  by (simp add: configs_def configs_table_def)

section \<open>The table: equal lengths and pairwise disjoint signatures\<close>

text \<open>
  C4. For every entry of the table \<^verbatim>\<open>configs\<close>, the magic and the mask, once their
  \<^verbatim>\<open>\xNN\<close> escapes are decoded, have the same number of bytes (twenty, in fact).
\<close>

theorem magic_mask_same_length:
  assumes "configs a = Some c"
  shows "length (unescape (magic c)) = length (unescape (mask_f c))"
  using configs_lengths [OF assms] by simp

theorem magic_mask_same_length_witness:
  "configs ''amd64'' = Some (snd (configs_table ! 0)) \<and>
   length (unescape (magic (snd (configs_table ! 0)))) =
   length (unescape (mask_f (snd (configs_table ! 0))))"
  using magic_mask_same_length [OF configs_amd64] configs_amd64 by simp

text \<open>
  C2. Any two entries of \<^verbatim>\<open>configs\<close> under different keys are told apart at some byte
  position, where both masks select a bit on which the two magics differ; hence no byte
  sequence matches both entries.
\<close>

theorem configs_pairwise_disjoint:
  assumes "configs a = Some ca" and "configs b = Some cb" and "a \<noteq> b"
  shows "(\<exists>i. separated_at ca cb i) \<and> (\<forall>buf. \<not> (matches buf ca \<and> matches buf cb))"
proof -
  from differ_nth [OF configs_differ [OF assms]]
  obtain i where "separated_at ca cb i"
    by (auto simp: separated_at_def Let_def)
  then show ?thesis
    using separated_at_disjoint by blast
qed

theorem configs_pairwise_disjoint_witness:
  "configs ''amd64'' = Some (snd (configs_table ! 0)) \<and>
   configs ''arm64'' = Some (snd (configs_table ! 1)) \<and> ''amd64'' \<noteq> ''arm64'' \<and>
   (\<exists>i. separated_at (snd (configs_table ! 0)) (snd (configs_table ! 1)) i) \<and>
   (\<forall>buf. \<not> (matches buf (snd (configs_table ! 0)) \<and> matches buf (snd (configs_table ! 1))))"
proof -
  have ne: "''amd64'' \<noteq> ''arm64''" by simp
  show ?thesis
    using configs_pairwise_disjoint [OF configs_amd64 configs_arm64 ne] configs_amd64 configs_arm64 ne
    by blast
qed

section \<open>uninstall\<close>

lemma HasSuffix_iff: "HasSuffix s suffix \<longleftrightarrow> (\<exists>p. s = p @ suffix)"
proof
  assume "HasSuffix s suffix"
  then have "s = take (length s - length suffix) s @ suffix"
    by (metis HasSuffix_def append_take_drop_id)
  then show "\<exists>p. s = p @ suffix" ..
next
  assume "\<exists>p. s = p @ suffix"
  then show "HasSuffix s suffix" by (auto simp: HasSuffix_def)
qed

lemma HasPrefix_iff: "HasPrefix s prefix \<longleftrightarrow> (\<exists>r. s = prefix @ r)"
proof
  assume "HasPrefix s prefix"
  then have "s = prefix @ drop (length prefix) s"
    by (metis HasPrefix_def append_take_drop_id)
  then show "\<exists>r. s = prefix @ r" ..
next
  assume "\<exists>r. s = prefix @ r"
  then show "HasPrefix s prefix" by (auto simp: HasPrefix_def)
qed

lemma addressed_by_code: "addressed_by target name = (name = target \<or> HasSuffix name (''-'' @ target))"
  by (simp add: addressed_by_def HasSuffix_iff)

lemma kernel_emit [simp]: "kernel (emit e \<sigma>) = kernel \<sigma>"
  by (simp add: emit_def)

lemma trace_emit [simp]: "trace (emit e \<sigma>) = trace \<sigma> @ [e]"
  by (simp add: emit_def)

lemma uninstall_loop_find:
  "uninstall_loop h fl t fis \<sigma> =
     (case find (\<lambda>n. \<not> reserved n \<and> addressed_by t n) fis of
        None \<Rightarrow> (Some NotFound, \<sigma>)
      | Some n \<Rightarrow>
          (fst (os_WriteFile h (kernel \<sigma>) (Join [mount fl, n]) ''-1''),
           \<lparr>kernel = snd (os_WriteFile h (kernel \<sigma>) (Join [mount fl, n]) ''-1''),
            trace = trace \<sigma> @ [EvWriteFile (Join [mount fl, n]) ''-1'']\<rparr>))"
  by (induction fis)
     (simp_all add: reserved_def addressed_by_code emit_def Let_def case_prod_unfold)

lemma uninstall_find:
  assumes "os_ReadDir h (kernel \<sigma>) (mount fl) = Inr fis"
  shows "uninstall h fl t \<sigma> =
     (case find (\<lambda>n. \<not> reserved n \<and> addressed_by t n) fis of
        None \<Rightarrow> (Some NotFound, \<sigma>\<lparr>trace := trace \<sigma> @ [EvReadDir (mount fl)]\<rparr>)
      | Some n \<Rightarrow>
          (fst (os_WriteFile h (kernel \<sigma>) (Join [mount fl, n]) ''-1''),
           \<lparr>kernel = snd (os_WriteFile h (kernel \<sigma>) (Join [mount fl, n]) ''-1''),
            trace = trace \<sigma> @ [EvReadDir (mount fl), EvWriteFile (Join [mount fl, n]) ''-1'']\<rparr>))"
  using assms
  by (simp add: uninstall_def uninstall_loop_find Let_def emit_def split: option.splits)

lemma printStatus_loop_reads:
  assumes "\<forall>n \<in> set fis. n \<noteq> ''register'' \<and> n \<noteq> ''status'' \<longrightarrow>
             os_ReadFile h (kernel \<sigma>) (Join [mount fl, n]) = Inr (content n)"
  shows "printStatus_loop h fl fis em \<sigma> =
           (Inr (em @ filter (\<lambda>n. n \<noteq> ''register'' \<and> n \<noteq> ''status'' \<and>
                                  (\<exists>r. content n = ''enabled'' @ r)) fis),
            \<sigma>\<lparr>trace := trace \<sigma> @ map (\<lambda>n. EvReadFile (Join [mount fl, n]))
                  (filter (\<lambda>n. n \<noteq> ''register'' \<and> n \<noteq> ''status'') fis)\<rparr>)"
  using assms
proof (induction fis arbitrary: em \<sigma>)
  case Nil
  then show ?case by simp
next
  case (Cons f fis)
  show ?case
  proof (cases "f = ''register'' \<or> f = ''status''")
    case True
    with Cons.prems have "\<forall>n \<in> set fis. n \<noteq> ''register'' \<and> n \<noteq> ''status'' \<longrightarrow>
             os_ReadFile h (kernel \<sigma>) (Join [mount fl, n]) = Inr (content n)" by simp
    from Cons.IH [OF this] True show ?thesis by auto
  next
    case False
    let ?\<sigma>1 = "emit (EvReadFile (Join [mount fl, f])) \<sigma>"
    from Cons.prems False have rd: "os_ReadFile h (kernel \<sigma>) (Join [mount fl, f]) = Inr (content f)"
      by simp
    from Cons.prems have "\<forall>n \<in> set fis. n \<noteq> ''register'' \<and> n \<noteq> ''status'' \<longrightarrow>
             os_ReadFile h (kernel ?\<sigma>1) (Join [mount fl, n]) = Inr (content n)" by simp
    note ih = Cons.IH [OF this]
    from False rd show ?thesis
      by (simp add: Let_def ih HasPrefix_iff)
  qed
qed

lemma printStatus_loop_same:
  assumes "kernel \<sigma> = kernel \<sigma>'"
  shows "\<exists>evs. fst (printStatus_loop h fl fis em \<sigma>) = fst (printStatus_loop h fl fis em \<sigma>') \<and>
           kernel (snd (printStatus_loop h fl fis em \<sigma>)) = kernel \<sigma> \<and>
           kernel (snd (printStatus_loop h fl fis em \<sigma>')) = kernel \<sigma>' \<and>
           trace (snd (printStatus_loop h fl fis em \<sigma>)) = trace \<sigma> @ evs \<and>
           trace (snd (printStatus_loop h fl fis em \<sigma>')) = trace \<sigma>' @ evs"
  using assms
proof (induction fis arbitrary: em \<sigma> \<sigma>')
  case Nil
  then show ?case by simp
next
  case (Cons f fis)
  show ?case
  proof (cases "f = ''register'' \<or> f = ''status''")
    case True
    with Cons.IH [OF Cons.prems, of em] show ?thesis by auto
  next
    case False
    let ?e = "EvReadFile (Join [mount fl, f])"
    show ?thesis
    proof (cases "os_ReadFile h (kernel \<sigma>) (Join [mount fl, f])")
      case (Inl err)
      with False Cons.prems show ?thesis by (simp add: Let_def)
    next
      case (Inr dt)
      let ?em = "if HasPrefix dt ''enabled'' then em @ [f] else em"
      have "kernel (emit ?e \<sigma>) = kernel (emit ?e \<sigma>')" using Cons.prems by simp
      from Cons.IH [OF this, of ?em] obtain evs where
        "fst (printStatus_loop h fl fis ?em (emit ?e \<sigma>)) = fst (printStatus_loop h fl fis ?em (emit ?e \<sigma>'))"
        "kernel (snd (printStatus_loop h fl fis ?em (emit ?e \<sigma>))) = kernel \<sigma>"
        "kernel (snd (printStatus_loop h fl fis ?em (emit ?e \<sigma>'))) = kernel \<sigma>'"
        "trace (snd (printStatus_loop h fl fis ?em (emit ?e \<sigma>))) = trace \<sigma> @ ?e # evs"
        "trace (snd (printStatus_loop h fl fis ?em (emit ?e \<sigma>'))) = trace \<sigma>' @ ?e # evs"
        by auto
      with False Inr Cons.prems show ?thesis by (simp add: Let_def)
    qed
  qed
qed

lemma printStatus_same:
  assumes "kernel \<sigma> = kernel \<sigma>'"
  shows "fst (printStatus h fl \<sigma>) = fst (printStatus h fl \<sigma>') \<and>
         kernel (snd (printStatus h fl \<sigma>)) = kernel (snd (printStatus h fl \<sigma>')) \<and>
         drop (length (trace \<sigma>)) (trace (snd (printStatus h fl \<sigma>))) =
         drop (length (trace \<sigma>')) (trace (snd (printStatus h fl \<sigma>')))"
proof (cases "os_ReadDir h (kernel \<sigma>) (mount fl)")
  case (Inl err)
  with assms show ?thesis by (simp add: printStatus_def Let_def)
next
  case (Inr fis)
  let ?e = "EvReadDir (mount fl)"
  have "kernel (emit ?e \<sigma>) = kernel (emit ?e \<sigma>')" using assms by simp
  from printStatus_loop_same [OF this, of h fl fis "[]"] obtain evs where
    a: "fst (printStatus_loop h fl fis [] (emit ?e \<sigma>)) = fst (printStatus_loop h fl fis [] (emit ?e \<sigma>'))"
    and b: "kernel (snd (printStatus_loop h fl fis [] (emit ?e \<sigma>))) = kernel \<sigma>"
     "kernel (snd (printStatus_loop h fl fis [] (emit ?e \<sigma>'))) = kernel \<sigma>'"
    and c: "trace (snd (printStatus_loop h fl fis [] (emit ?e \<sigma>))) = trace \<sigma> @ ?e # evs"
      "trace (snd (printStatus_loop h fl fis [] (emit ?e \<sigma>'))) = trace \<sigma>' @ ?e # evs"
    by auto
  obtain r \<sigma>2 where l1: "printStatus_loop h fl fis [] (emit ?e \<sigma>) = (r, \<sigma>2)" by (cases "printStatus_loop h fl fis [] (emit ?e \<sigma>)")
  obtain r' \<sigma>2' where l2: "printStatus_loop h fl fis [] (emit ?e \<sigma>') = (r', \<sigma>2')" by (cases "printStatus_loop h fl fis [] (emit ?e \<sigma>')")
  from a b c l1 l2 assms Inr show ?thesis
    by (cases r; cases r') (simp_all add: printStatus_def Let_def)
qed

lemmas demo_defs = demo_host_def demo_mounted_def demo_unmounted_def demo_flags_def
  demo_entries_def demo_exists_def demo_register_def demo_WriteFile_def no_env_def

text \<open>
  C5. Given the directory listing of the mount point, \<^verbatim>\<open>uninstall\<close> looks for the first
  entry, in directory order, that is not reserved and is addressed by the target (its
  name is the target or ends with a hyphen and the target). If there is one, the call
  writes \<^verbatim>\<open>-1\<close> to that entry, and to no other, and returns the outcome of that write;
  if there is none, it writes nothing.
\<close>

theorem uninstall_first_match:
  assumes "os_ReadDir h (kernel \<sigma>) (mount fl) = Inr fis"
  shows "uninstall h fl t \<sigma> =
     (case find (\<lambda>n. \<not> reserved n \<and> addressed_by t n) fis of
        None \<Rightarrow> (Some NotFound, \<sigma>\<lparr>trace := trace \<sigma> @ [EvReadDir (mount fl)]\<rparr>)
      | Some n \<Rightarrow>
          (fst (os_WriteFile h (kernel \<sigma>) (Join [mount fl, n]) ''-1''),
           \<lparr>kernel = snd (os_WriteFile h (kernel \<sigma>) (Join [mount fl, n]) ''-1''),
            trace = trace \<sigma> @ [EvReadDir (mount fl), EvWriteFile (Join [mount fl, n]) ''-1'']\<rparr>))"
  using assms by (rule uninstall_find)

theorem uninstall_first_match_witness:
  "os_ReadDir (demo_host no_env [] True) (kernel demo_mounted) (mount demo_flags) =
     Inr [''WSLInterop'', ''qemu-aarch64'', ''qemu-arm'', ''register'', ''status'', ''user-aarch64''] \<and>
   uninstall (demo_host no_env [] True) demo_flags ''aarch64'' demo_mounted =
     (None,
      \<lparr>kernel = Some [(''WSLInterop'', ''enabled''), (''qemu-arm'', ''disabled''),
                      (''register'', []), (''status'', ''enabled''),
                      (''user-aarch64'', ''enabled'')],
       trace = [EvReadDir ''/proc/sys/fs/binfmt_misc'',
                EvWriteFile ''/proc/sys/fs/binfmt_misc/qemu-aarch64'' ''-1'']\<rparr>)"
proof -
  have rd: "os_ReadDir (demo_host no_env [] True) (kernel demo_mounted) (mount demo_flags) =
     Inr [''WSLInterop'', ''qemu-aarch64'', ''qemu-arm'', ''register'', ''status'', ''user-aarch64'']"
    by (simp add: demo_defs)
  show ?thesis
    using uninstall_first_match [OF rd, of "''aarch64''"] rd
    by (simp add: reserved_def addressed_by_code HasSuffix_def demo_defs Join_def Clean_def mnt_def)
qed

text \<open>
  C8. When no entry of the listing is both unreserved and addressed by the target,
  \<^verbatim>\<open>uninstall\<close> returns the error "not found"; it has only read the directory, the
  host's state is what it was, and a status report taken after the call returns and
  prints what it would have returned and printed before it.
\<close>

theorem uninstall_not_found:
  assumes "os_ReadDir h (kernel \<sigma>) (mount fl) = Inr fis"
    and "\<forall>n \<in> set fis. reserved n \<or> \<not> addressed_by t n"
  shows "uninstall h fl t \<sigma> = (Some NotFound, \<sigma>\<lparr>trace := trace \<sigma> @ [EvReadDir (mount fl)]\<rparr>) \<and>
         fst (printStatus h fl (snd (uninstall h fl t \<sigma>))) = fst (printStatus h fl \<sigma>) \<and>
         drop (length (trace (snd (uninstall h fl t \<sigma>))))
              (trace (snd (printStatus h fl (snd (uninstall h fl t \<sigma>))))) =
         drop (length (trace \<sigma>)) (trace (snd (printStatus h fl \<sigma>)))"
proof -
  from assms(2) have "find (\<lambda>n. \<not> reserved n \<and> addressed_by t n) fis = None"
    by (auto simp: find_None_iff)
  with assms(1) have u: "uninstall h fl t \<sigma> = (Some NotFound, \<sigma>\<lparr>trace := trace \<sigma> @ [EvReadDir (mount fl)]\<rparr>)"
    by (simp add: uninstall_find emit_def)
  have "kernel (\<sigma>\<lparr>trace := trace \<sigma> @ [EvReadDir (mount fl)]\<rparr>) = kernel \<sigma>" by simp
  from printStatus_same [OF this] u show ?thesis by simp
qed

theorem uninstall_not_found_witness:
  "os_ReadDir (demo_host no_env [] True) (kernel demo_mounted) (mount demo_flags) =
     Inr [''WSLInterop'', ''qemu-aarch64'', ''qemu-arm'', ''register'', ''status'', ''user-aarch64''] \<and>
   find (\<lambda>n. \<not> reserved n \<and> addressed_by ''riscv64'' n)
     [''WSLInterop'', ''qemu-aarch64'', ''qemu-arm'', ''register'', ''status'', ''user-aarch64''] = None \<and>
   uninstall (demo_host no_env [] True) demo_flags ''riscv64'' demo_mounted =
     (Some NotFound, demo_mounted\<lparr>trace := [EvReadDir ''/proc/sys/fs/binfmt_misc'']\<rparr>) \<and>
   fst (printStatus (demo_host no_env [] True) demo_flags
          (snd (uninstall (demo_host no_env [] True) demo_flags ''riscv64'' demo_mounted))) =
   fst (printStatus (demo_host no_env [] True) demo_flags demo_mounted)"
proof -
  have rd: "os_ReadDir (demo_host no_env [] True) (kernel demo_mounted) (mount demo_flags) =
     Inr [''WSLInterop'', ''qemu-aarch64'', ''qemu-arm'', ''register'', ''status'', ''user-aarch64'']"
    by (simp add: demo_defs)
  have nm: "\<forall>n \<in> set [''WSLInterop'', ''qemu-aarch64'', ''qemu-arm'', ''register'', ''status'', ''user-aarch64''].
      reserved n \<or> \<not> addressed_by ''riscv64'' n"
    by (simp add: reserved_def addressed_by_code HasSuffix_def)
  have m: "mount demo_flags = ''/proc/sys/fs/binfmt_misc''" "trace demo_mounted = []"
    by (simp_all add: demo_defs mnt_def)
  note u = uninstall_not_found [OF rd nm]
  from u have a: "uninstall (demo_host no_env [] True) demo_flags ''riscv64'' demo_mounted =
     (Some NotFound, demo_mounted\<lparr>trace := [EvReadDir ''/proc/sys/fs/binfmt_misc'']\<rparr>)"
    by (simp add: m)
  from u have b: "fst (printStatus (demo_host no_env [] True) demo_flags
          (snd (uninstall (demo_host no_env [] True) demo_flags ''riscv64'' demo_mounted))) =
   fst (printStatus (demo_host no_env [] True) demo_flags demo_mounted)"
    by blast
  from nm have fn: "find (\<lambda>n. \<not> reserved n \<and> addressed_by ''riscv64'' n)
     [''WSLInterop'', ''qemu-aarch64'', ''qemu-arm'', ''register'', ''status'', ''user-aarch64''] = None"
    unfolding find_None_iff by blast
  from rd fn a b show ?thesis by blast
qed

section \<open>install, run and main\<close>

lemma getBinaryNames_ok:
  assumes "CHR ''/'' \<notin> set (Getenv h ''QEMU_BINARY_PREFIX'')"
  shows "getBinaryNames h cfg =
           Inr (Getenv h ''QEMU_BINARY_PREFIX'' @ binary cfg,
                Join [if Getenv h ''QEMU_BINARY_PATH'' = [] then ''/usr/bin''
                      else Getenv h ''QEMU_BINARY_PATH'',
                      Getenv h ''QEMU_BINARY_PREFIX'' @ binary cfg])"
  using assms
  by (cases "Getenv h ''QEMU_BINARY_PREFIX'' = []"; cases "Getenv h ''QEMU_BINARY_PATH'' = []")
     (simp_all add: getBinaryNames_def Let_def)

lemma install_written:
  assumes "configs arch = Some cfg"
    and "os_OpenFile h (kernel \<sigma>) (Join [mount fl, ''register'']) = None"
    and "getBinaryNames h cfg = Inr (name, path)"
    and "line = '':'' @ name @ '':M:0:'' @ magic cfg @ '':'' @ mask_f cfg @ '':'' @ path @ '':'' @
                ''CF'' @ (if Getenv h ''QEMU_PRESERVE_ARGV0'' \<noteq> [] then ''P'' else [])"
  shows "install h fl arch \<sigma> =
           (case fst (file_Write h (kernel \<sigma>) (Join [mount fl, ''register'']) line) of
              None \<Rightarrow> None
            | Some err \<Rightarrow>
                Some (if pathErrIs err EEXIST then AlreadyRegistered name
                      else CannotRegister path (Join [mount fl, ''register'']) err),
            \<lparr>kernel = snd (file_Write h (kernel \<sigma>) (Join [mount fl, ''register'']) line),
             trace = trace \<sigma> @
               [EvOpen (Join [mount fl, ''register'']),
                EvWrite (Join [mount fl, ''register'']) line,
                EvClose (Join [mount fl, ''register''])]\<rparr>)"
proof -
  have i: "install h fl arch \<sigma> =
     (case file_Write h (kernel \<sigma>) (Join [mount fl, ''register'']) line of
        (r, k) \<Rightarrow>
          (case r of
             None \<Rightarrow> None
           | Some err \<Rightarrow>
               Some (if pathErrIs err EEXIST then AlreadyRegistered name
                     else CannotRegister path (Join [mount fl, ''register'']) err),
           emit (EvClose (Join [mount fl, ''register'']))
             (emit (EvWrite (Join [mount fl, ''register'']) line)
                (emit (EvOpen (Join [mount fl, ''register''])) \<sigma>\<lparr>kernel := k\<rparr>))))"
    unfolding install_def Let_def assms(1-3) assms(4) [symmetric] option.case sum.case prod.case kernel_emit
    by (simp split: prod.split option.split)
  obtain r k where w: "file_Write h (kernel \<sigma>) (Join [mount fl, ''register'']) line = (r, k)"
    by (rule prod.exhaust)
  show ?thesis
    unfolding i w by (simp add: emit_def)
qed

text \<open>
  C3. For an architecture of the table, once \<^verbatim>\<open>register\<close> has been opened and the
  binary prefix holds no path separator, \<^verbatim>\<open>install\<close> opens \<^verbatim>\<open>register\<close>, writes to
  it once and closes it. What it writes is the record
  \<^verbatim>\<open>:<name>:M:0:<magic>:<mask>:<path>:<flags>\<close>, with the offset field 0, the name the
  prefix followed by the emulator's base name, the path the name joined to the binary
  directory, and the flags \<^verbatim>\<open>CF\<close> when \<^verbatim>\<open>QEMU_PRESERVE_ARGV0\<close> is empty and \<^verbatim>\<open>CFP\<close>
  otherwise. The host's state after the call is the one this write leaves, and the call
  returns the outcome of this write: success, "already registered" when the kernel
  answers that the entry exists, and otherwise the error with the path and
  \<^verbatim>\<open>register\<close>.
\<close>

theorem install_record:
  assumes "configs arch = Some cfg"
    and "os_OpenFile h (kernel \<sigma>) (Join [mount fl, ''register'']) = None"
    and "CHR ''/'' \<notin> set (Getenv h ''QEMU_BINARY_PREFIX'')"
  shows "let register = Join [mount fl, ''register''];
             name = Getenv h ''QEMU_BINARY_PREFIX'' @ binary cfg;
             dir = (if Getenv h ''QEMU_BINARY_PATH'' = [] then ''/usr/bin''
                    else Getenv h ''QEMU_BINARY_PATH'');
             flags = (if Getenv h ''QEMU_PRESERVE_ARGV0'' = [] then ''CF'' else ''CFP'');
             line = '':'' @ name @ '':M:0:'' @ magic cfg @ '':'' @ mask_f cfg @ '':'' @
                    Join [dir, name] @ '':'' @ flags
         in install h fl arch \<sigma> =
              (case fst (file_Write h (kernel \<sigma>) register line) of
                 None \<Rightarrow> None
               | Some err \<Rightarrow>
                   Some (if pathErrIs err EEXIST then AlreadyRegistered name
                         else CannotRegister (Join [dir, name]) register err),
               \<lparr>kernel = snd (file_Write h (kernel \<sigma>) register line),
                trace = trace \<sigma> @ [EvOpen register, EvWrite register line, EvClose register]\<rparr>)"
proof -
  have f: "''CF'' @ (if Getenv h ''QEMU_PRESERVE_ARGV0'' \<noteq> [] then ''P'' else []) =
           (if Getenv h ''QEMU_PRESERVE_ARGV0'' = [] then ''CF'' else ''CFP'')"
    by simp
  show ?thesis
    unfolding Let_def
    using install_written [OF assms(1,2) getBinaryNames_ok [OF assms(3)] refl]
    unfolding f .
qed

lemma demo_paths:
  "mount demo_flags = ''/proc/sys/fs/binfmt_misc''"
  "Join [mount demo_flags, ''register''] = ''/proc/sys/fs/binfmt_misc/register''"
  "Join [mount demo_flags, ''status''] = ''/proc/sys/fs/binfmt_misc/status''"
  "Join [''/proc/sys/fs/binfmt_misc'', ''register''] = ''/proc/sys/fs/binfmt_misc/register''"
  "Join [''/proc/sys/fs/binfmt_misc'', ''status''] = ''/proc/sys/fs/binfmt_misc/status''"
  "Join [''/usr/bin'', ''qemu-x86_64''] = ''/usr/bin/qemu-x86_64''"
  "trace demo_mounted = []"
  "trace demo_unmounted = []"
  by code_simp+

lemma demo_open_register:
  "os_OpenFile (demo_host no_env [] True) (kernel demo_mounted)
     (Join [mount demo_flags, ''register'']) = None"
  by code_simp

text \<open>
  The statement above at the mounted example, for \<^verbatim>\<open>amd64\<close>, says as much as the
  equation that gives the result, the new state and the trace of that call in full.
\<close>

lemma demo_install_amd64:
  "(let register = Join [mount demo_flags, ''register''];
        name = Getenv (demo_host no_env [] True) ''QEMU_BINARY_PREFIX'' @ binary (snd (configs_table ! 0));
        dir = (if Getenv (demo_host no_env [] True) ''QEMU_BINARY_PATH'' = [] then ''/usr/bin''
               else Getenv (demo_host no_env [] True) ''QEMU_BINARY_PATH'');
        flags = (if Getenv (demo_host no_env [] True) ''QEMU_PRESERVE_ARGV0'' = [] then ''CF'' else ''CFP'');
        line = '':'' @ name @ '':M:0:'' @ magic (snd (configs_table ! 0)) @ '':'' @
               mask_f (snd (configs_table ! 0)) @ '':'' @ Join [dir, name] @ '':'' @ flags
    in install (demo_host no_env [] True) demo_flags ''amd64'' demo_mounted =
         (case fst (file_Write (demo_host no_env [] True) (kernel demo_mounted) register line) of
            None \<Rightarrow> None
          | Some err \<Rightarrow>
              Some (if pathErrIs err EEXIST then AlreadyRegistered name
                    else CannotRegister (Join [dir, name]) register err),
          \<lparr>kernel = snd (file_Write (demo_host no_env [] True) (kernel demo_mounted) register line),
           trace = trace demo_mounted @ [EvOpen register, EvWrite register line, EvClose register]\<rparr>))
   \<longleftrightarrow>
   install (demo_host no_env [] True) demo_flags ''amd64'' demo_mounted =
     (None,
      \<lparr>kernel = Some [(''WSLInterop'', ''enabled''), (''qemu-aarch64'', ''enabled''),
                      (''qemu-arm'', ''disabled''), (''register'', []),
                      (''status'', ''enabled''), (''user-aarch64'', ''enabled''),
                      (''qemu-x86_64'', ''enabled'')],
       trace = [EvOpen ''/proc/sys/fs/binfmt_misc/register'',
                EvWrite ''/proc/sys/fs/binfmt_misc/register''
                  ('':qemu-x86_64:M:0:'' @ magic (snd (configs_table ! 0)) @ '':'' @
                   mask_f (snd (configs_table ! 0)) @ '':/usr/bin/qemu-x86_64:CF''),
                EvClose ''/proc/sys/fs/binfmt_misc/register'']\<rparr>)"
  by code_simp

theorem install_record_witness:
  "configs ''amd64'' = Some (snd (configs_table ! 0)) \<and>
   os_OpenFile (demo_host no_env [] True) (kernel demo_mounted)
     (Join [mount demo_flags, ''register'']) = None \<and>
   CHR ''/'' \<notin> set (Getenv (demo_host no_env [] True) ''QEMU_BINARY_PREFIX'') \<and>
   install (demo_host no_env [] True) demo_flags ''amd64'' demo_mounted =
     (None,
      \<lparr>kernel = Some [(''WSLInterop'', ''enabled''), (''qemu-aarch64'', ''enabled''),
                      (''qemu-arm'', ''disabled''), (''register'', []),
                      (''status'', ''enabled''), (''user-aarch64'', ''enabled''),
                      (''qemu-x86_64'', ''enabled'')],
       trace = [EvOpen ''/proc/sys/fs/binfmt_misc/register'',
                EvWrite ''/proc/sys/fs/binfmt_misc/register''
                  ('':qemu-x86_64:M:0:'' @ magic (snd (configs_table ! 0)) @ '':'' @
                   mask_f (snd (configs_table ! 0)) @ '':/usr/bin/qemu-x86_64:CF''),
                EvClose ''/proc/sys/fs/binfmt_misc/register'']\<rparr>)"
proof -
  have p: "CHR ''/'' \<notin> set (Getenv (demo_host no_env [] True) ''QEMU_BINARY_PREFIX'')"
    by (simp add: demo_host_def no_env_def)
  from install_record [OF configs_amd64 demo_open_register p]
  have "install (demo_host no_env [] True) demo_flags ''amd64'' demo_mounted =
     (None,
      \<lparr>kernel = Some [(''WSLInterop'', ''enabled''), (''qemu-aarch64'', ''enabled''),
                      (''qemu-arm'', ''disabled''), (''register'', []),
                      (''status'', ''enabled''), (''user-aarch64'', ''enabled''),
                      (''qemu-x86_64'', ''enabled'')],
       trace = [EvOpen ''/proc/sys/fs/binfmt_misc/register'',
                EvWrite ''/proc/sys/fs/binfmt_misc/register''
                  ('':qemu-x86_64:M:0:'' @ magic (snd (configs_table ! 0)) @ '':'' @
                   mask_f (snd (configs_table ! 0)) @ '':/usr/bin/qemu-x86_64:CF''),
                EvClose ''/proc/sys/fs/binfmt_misc/register'']\<rparr>)"
    unfolding demo_install_amd64 .
  with configs_amd64 demo_open_register p show ?thesis by blast
qed

text \<open>
  C6. When \<^verbatim>\<open>QEMU_BINARY_PREFIX\<close> contains a path separator, \<^verbatim>\<open>getBinaryNames\<close>
  returns the configuration error for every entry. A call of \<^verbatim>\<open>install\<close>, whatever its
  argument, then returns an error and leaves the host's state as it was: it writes
  nothing, the only calls it can make being the opening and the closing of
  \<^verbatim>\<open>register\<close>. For an architecture of the table, with \<^verbatim>\<open>register\<close> opened, the error
  it returns is that configuration error, after the opening and the closing alone.
\<close>

theorem prefix_separator_rejected:
  assumes "CHR ''/'' \<in> set (Getenv h ''QEMU_BINARY_PREFIX'')"
  shows "getBinaryNames h cfg = Inl PrefixHasSeparator \<and>
         kernel (snd (install h fl arch \<sigma>)) = kernel \<sigma> \<and>
         set (drop (length (trace \<sigma>)) (trace (snd (install h fl arch \<sigma>))))
           \<subseteq> {EvOpen (Join [mount fl, ''register'']), EvClose (Join [mount fl, ''register''])} \<and>
         fst (install h fl arch \<sigma>) \<noteq> None \<and>
         (configs arch \<noteq> None \<and> os_OpenFile h (kernel \<sigma>) (Join [mount fl, ''register'']) = None \<longrightarrow>
            install h fl arch \<sigma> =
              (Some PrefixHasSeparator,
               \<sigma>\<lparr>trace := trace \<sigma> @ [EvOpen (Join [mount fl, ''register'']),
                                      EvClose (Join [mount fl, ''register''])]\<rparr>))"
proof -
  from assms have p: "Getenv h ''QEMU_BINARY_PREFIX'' \<noteq> []" by auto
  with assms have g: "\<And>c. getBinaryNames h c = Inl PrefixHasSeparator"
    by (simp add: getBinaryNames_def Let_def)
  have a: "kernel (snd (install h fl arch \<sigma>)) = kernel \<sigma> \<and>
         set (drop (length (trace \<sigma>)) (trace (snd (install h fl arch \<sigma>))))
           \<subseteq> {EvOpen (Join [mount fl, ''register'']), EvClose (Join [mount fl, ''register''])}"
    by (simp add: g install_def Let_def split: option.splits)
  have b: "fst (install h fl arch \<sigma>) \<noteq> None"
    by (simp add: g install_def Let_def split: option.splits)
  have c: "configs arch \<noteq> None \<and> os_OpenFile h (kernel \<sigma>) (Join [mount fl, ''register'']) = None \<longrightarrow>
            install h fl arch \<sigma> =
              (Some PrefixHasSeparator,
               \<sigma>\<lparr>trace := trace \<sigma> @ [EvOpen (Join [mount fl, ''register'']),
                                      EvClose (Join [mount fl, ''register''])]\<rparr>)"
    by (auto simp: g install_def Let_def emit_def)
  from g a b c show ?thesis by blast
qed

lemma demo_open_register_prefix:
  "os_OpenFile (demo_host prefix_env [] True) (kernel demo_mounted)
     (Join [mount demo_flags, ''register'']) = None"
  by code_simp

theorem prefix_separator_rejected_witness:
  "CHR ''/'' \<in> set (Getenv (demo_host prefix_env [] True) ''QEMU_BINARY_PREFIX'') \<and>
   getBinaryNames (demo_host prefix_env [] True) (snd (configs_table ! 0)) = Inl PrefixHasSeparator \<and>
   install (demo_host prefix_env [] True) demo_flags ''amd64'' demo_mounted =
     (Some PrefixHasSeparator,
      demo_mounted\<lparr>trace := [EvOpen ''/proc/sys/fs/binfmt_misc/register'',
                              EvClose ''/proc/sys/fs/binfmt_misc/register'']\<rparr>)"
proof -
  have p: "CHR ''/'' \<in> set (Getenv (demo_host prefix_env [] True) ''QEMU_BINARY_PREFIX'')"
    by (simp add: demo_host_def prefix_env_def)
  have k: "configs ''amd64'' \<noteq> None" using configs_amd64 by simp
  note t = prefix_separator_rejected [OF p, of "snd (configs_table ! 0)" demo_flags "''amd64''" demo_mounted]
  from t have g: "getBinaryNames (demo_host prefix_env [] True) (snd (configs_table ! 0)) =
                    Inl PrefixHasSeparator"
    by blast
  from t k demo_open_register_prefix
  have "install (demo_host prefix_env [] True) demo_flags ''amd64'' demo_mounted =
     (Some PrefixHasSeparator,
      demo_mounted\<lparr>trace := trace demo_mounted @ [EvOpen (Join [mount demo_flags, ''register'']),
                              EvClose (Join [mount demo_flags, ''register''])]\<rparr>)"
    by blast
  then have "install (demo_host prefix_env [] True) demo_flags ''amd64'' demo_mounted =
     (Some PrefixHasSeparator,
      demo_mounted\<lparr>trace := [EvOpen ''/proc/sys/fs/binfmt_misc/register'',
                              EvClose ''/proc/sys/fs/binfmt_misc/register'']\<rparr>)"
    by (simp add: demo_paths)
  with p g show ?thesis by blast
qed

lemma run_mount_fails:
  assumes "\<not> flVersion fl"
    and "os_Stat h (kernel \<sigma>) (Join [mount fl, ''status'']) = Some e"
    and "fst (syscall_Mount h (kernel \<sigma>) (mount fl)) = Some err"
  shows "fst (run h fl \<sigma>) = Some (CannotMount err (mount fl))"
    and "trace (snd (run h fl \<sigma>)) =
           trace \<sigma> @ [EvStat (Join [mount fl, ''status'']), EvMount (mount fl)]"
  using assms by (simp_all add: run_def Let_def case_prod_unfold)

text \<open>
  C7. When the version flag is not set, the status marker cannot be found and the mount
  call fails with \<open>err\<close>, \<^verbatim>\<open>run\<close> returns \<open>err\<close> wrapped with the mount point, and
  the check of the marker and the mount call are all it has done: no uninstall, no
  install and no status report is attempted.
\<close>

theorem run_mount_failure:
  assumes "\<not> flVersion fl"
    and "os_Stat h (kernel \<sigma>) (Join [mount fl, ''status'']) = Some e"
    and "fst (syscall_Mount h (kernel \<sigma>) (mount fl)) = Some err"
  shows "fst (run h fl \<sigma>) = Some (CannotMount err (mount fl)) \<and>
         trace (snd (run h fl \<sigma>)) =
           trace \<sigma> @ [EvStat (Join [mount fl, ''status'']), EvMount (mount fl)]"
  using run_mount_fails [OF assms] by simp

lemma demo_no_mount:
  "\<not> flVersion demo_flags"
  "os_Stat (demo_host no_env [] False) (kernel demo_unmounted) (Join [mount demo_flags, ''status''])
     = Some (PathError ''stat'' ''/proc/sys/fs/binfmt_misc/status'' ENOENT)"
  "fst (syscall_Mount (demo_host no_env [] False) (kernel demo_unmounted) (mount demo_flags))
     = Some (Errno EPERM)"
  by code_simp+

theorem run_mount_failure_witness:
  "\<not> flVersion demo_flags \<and>
   os_Stat (demo_host no_env [] False) (kernel demo_unmounted) (Join [mount demo_flags, ''status''])
     = Some (PathError ''stat'' ''/proc/sys/fs/binfmt_misc/status'' ENOENT) \<and>
   fst (syscall_Mount (demo_host no_env [] False) (kernel demo_unmounted) (mount demo_flags))
     = Some (Errno EPERM) \<and>
   fst (run (demo_host no_env [] False) demo_flags demo_unmounted) =
     Some (CannotMount (Errno EPERM) ''/proc/sys/fs/binfmt_misc'') \<and>
   trace (snd (run (demo_host no_env [] False) demo_flags demo_unmounted)) =
     [EvStat ''/proc/sys/fs/binfmt_misc/status'', EvMount ''/proc/sys/fs/binfmt_misc'']"
proof -
  from run_mount_failure [OF demo_no_mount]
  have "fst (run (demo_host no_env [] False) demo_flags demo_unmounted) =
     Some (CannotMount (Errno EPERM) ''/proc/sys/fs/binfmt_misc'') \<and>
   trace (snd (run (demo_host no_env [] False) demo_flags demo_unmounted)) =
     [EvStat ''/proc/sys/fs/binfmt_misc/status'', EvMount ''/proc/sys/fs/binfmt_misc'']"
    by (simp add: demo_paths)
  with demo_no_mount show ?thesis by blast
qed







section \<open>The status report\<close>

lemma printStatus_reads:
  assumes "os_ReadDir h (kernel \<sigma>) (mount fl) = Inr fis"
    and "\<forall>n \<in> set fis. n \<noteq> ''register'' \<and> n \<noteq> ''status'' \<longrightarrow>
           os_ReadFile h (kernel \<sigma>) (Join [mount fl, n]) = Inr (content n)"
  shows "printStatus h fl \<sigma> =
     (None,
      \<sigma>\<lparr>trace := trace \<sigma> @ [EvReadDir (mount fl)] @
           map (\<lambda>n. EvReadFile (Join [mount fl, n]))
             (filter (\<lambda>n. n \<noteq> ''register'' \<and> n \<noteq> ''status'') fis) @
           [EvSupportedPlatforms,
            EvPrint (formatPlatforms h (archutil_SupportedPlatforms h (kernel \<sigma>)))
              (filter (\<lambda>n. n \<noteq> ''register'' \<and> n \<noteq> ''status'' \<and>
                            (\<exists>r. content n = ''enabled'' @ r)) fis)]\<rparr>)"
proof -
  let ?\<sigma>1 = "emit (EvReadDir (mount fl)) \<sigma>"
  from assms(2) have "\<forall>n \<in> set fis. n \<noteq> ''register'' \<and> n \<noteq> ''status'' \<longrightarrow>
           os_ReadFile h (kernel ?\<sigma>1) (Join [mount fl, n]) = Inr (content n)" by simp
  note l = printStatus_loop_reads [OF this, of "[]"]
  from assms(1) show ?thesis
    by (simp add: printStatus_def Let_def l)
qed

text \<open>
  C9. When the directory listing and the reads of its entries succeed, \<^verbatim>\<open>printStatus\<close>
  reads every entry other than \<^verbatim>\<open>register\<close> and \<^verbatim>\<open>status\<close> and prints one status
  object, whose emulators are exactly the names of those entries whose content begins
  with \<^verbatim>\<open>enabled\<close>, in directory order.
\<close>

theorem printStatus_emulators:
  assumes "os_ReadDir h (kernel \<sigma>) (mount fl) = Inr fis"
    and "\<forall>n \<in> set fis. n \<noteq> ''register'' \<and> n \<noteq> ''status'' \<longrightarrow>
           os_ReadFile h (kernel \<sigma>) (Join [mount fl, n]) = Inr (content n)"
  shows "printStatus h fl \<sigma> =
     (None,
      \<sigma>\<lparr>trace := trace \<sigma> @ [EvReadDir (mount fl)] @
           map (\<lambda>n. EvReadFile (Join [mount fl, n]))
             (filter (\<lambda>n. n \<noteq> ''register'' \<and> n \<noteq> ''status'') fis) @
           [EvSupportedPlatforms,
            EvPrint (formatPlatforms h (archutil_SupportedPlatforms h (kernel \<sigma>)))
              (filter (\<lambda>n. n \<noteq> ''register'' \<and> n \<noteq> ''status'' \<and>
                            (\<exists>r. content n = ''enabled'' @ r)) fis)]\<rparr>)"
  using assms by (rule printStatus_reads)

theorem printStatus_emulators_witness:
  "os_ReadDir (demo_host no_env [] True) (kernel demo_mounted) (mount demo_flags) =
     Inr [''WSLInterop'', ''qemu-aarch64'', ''qemu-arm'', ''register'', ''status'', ''user-aarch64''] \<and>
   list_all (\<lambda>n. os_ReadFile (demo_host no_env [] True) (kernel demo_mounted)
                    (Join [mount demo_flags, n]) = Inr (demo_content n))
     [''WSLInterop'', ''qemu-aarch64'', ''qemu-arm'', ''user-aarch64''] \<and>
   fst (printStatus (demo_host no_env [] True) demo_flags demo_mounted) = None \<and>
   last (trace (snd (printStatus (demo_host no_env [] True) demo_flags demo_mounted))) =
     EvPrint [''linux/amd64'', ''linux/386''] [''WSLInterop'', ''qemu-aarch64'', ''user-aarch64'']"
proof -
  let ?fis = "[''WSLInterop'', ''qemu-aarch64'', ''qemu-arm'', ''register'', ''status'', ''user-aarch64'']"
  have rd: "os_ReadDir (demo_host no_env [] True) (kernel demo_mounted) (mount demo_flags) = Inr ?fis"
    by code_simp
  have rf: "\<forall>n \<in> set ?fis. n \<noteq> ''register'' \<and> n \<noteq> ''status'' \<longrightarrow>
      os_ReadFile (demo_host no_env [] True) (kernel demo_mounted) (Join [mount demo_flags, n]) =
        Inr (demo_content n)"
    by code_simp
  have sp: "formatPlatforms (demo_host no_env [] True)
              (archutil_SupportedPlatforms (demo_host no_env [] True) (kernel demo_mounted)) =
            [''linux/amd64'', ''linux/386'']"
    by code_simp
  have em: "filter (\<lambda>n. n \<noteq> ''register'' \<and> n \<noteq> ''status'' \<and> (\<exists>r. demo_content n = ''enabled'' @ r)) ?fis
            = [''WSLInterop'', ''qemu-aarch64'', ''user-aarch64'']"
    unfolding HasPrefix_iff [symmetric] by code_simp
  from printStatus_emulators [OF rd rf]
  have "fst (printStatus (demo_host no_env [] True) demo_flags demo_mounted) = None \<and>
        last (trace (snd (printStatus (demo_host no_env [] True) demo_flags demo_mounted))) =
          EvPrint (formatPlatforms (demo_host no_env [] True)
                     (archutil_SupportedPlatforms (demo_host no_env [] True) (kernel demo_mounted)))
            (filter (\<lambda>n. n \<noteq> ''register'' \<and> n \<noteq> ''status'' \<and>
                          (\<exists>r. demo_content n = ''enabled'' @ r)) ?fis)"
    by simp
  moreover have "list_all (\<lambda>n. os_ReadFile (demo_host no_env [] True) (kernel demo_mounted)
                    (Join [mount demo_flags, n]) = Inr (demo_content n))
     [''WSLInterop'', ''qemu-aarch64'', ''qemu-arm'', ''user-aarch64'']"
    by code_simp
  ultimately show ?thesis
    using rd unfolding sp em by blast
qed

section \<open>allArch\<close>

lemma allArch_native_eq:
  "fst (allArch_native h pps m \<sigma>) =
     m @ concat (map (\<lambda>pp. case platforms_Parse h pp of Inr p \<Rightarrow> [Architecture p] | Inl err \<Rightarrow> []) pps)
   \<and> kernel (snd (allArch_native h pps m \<sigma>)) = kernel \<sigma>"
  by (induction pps arbitrary: m \<sigma>) (simp_all split: sum.splits)

lemma allArch_loop_eq:
  assumes "kernel \<sigma> = k"
  shows "fst (allArch_loop h m ns out \<sigma>) =
     out @ filter (\<lambda>a. a \<notin> set m \<and>
                       (case getBinaryNames h (configs_index a) of
                          Inl err \<Rightarrow> True
                        | Inr (b, fullPath) \<Rightarrow> os_Stat h k fullPath = None)) ns"
  using assms
proof (induction ns arbitrary: out \<sigma>)
  case Nil
  then show ?case by simp
next
  case (Cons n ns)
  show ?case
  proof (cases "n \<in> set m")
    case True
    then show ?thesis by (simp add: Cons.IH [OF Cons.prems])
  next
    case False
    show ?thesis
    proof (cases "getBinaryNames h (configs_index n)")
      case (Inl err)
      with False show ?thesis by (simp add: Cons.IH [OF Cons.prems])
    next
      case (Inr bp)
      obtain b p where bp: "bp = (b, p)" by (cases bp)
      have e: "kernel (emit (EvStat p) \<sigma>) = k" using Cons.prems by simp
      from False Inr bp Cons.prems show ?thesis
        by (cases "os_Stat h k p = None") (simp_all add: Cons.IH [OF e])
    qed
  qed
qed

lemma allArch_eq:
  "fst (allArch h \<sigma>) =
     filter (\<lambda>a. a \<notin> set (native_archs h (kernel \<sigma>)) \<and>
                  (case getBinaryNames h (configs_index a) of
                     Inl err \<Rightarrow> True
                   | Inr (b, fullPath) \<Rightarrow> os_Stat h (kernel \<sigma>) fullPath = None))
       (range_configs h)"
proof -
  let ?sup = "formatPlatforms h (archutil_SupportedPlatforms h (kernel \<sigma>))"
  let ?r = "allArch_native h ?sup [] (emit EvSupportedPlatforms \<sigma>)"
  have m: "fst ?r = native_archs h (kernel \<sigma>)" and k: "kernel (snd ?r) = kernel \<sigma>"
    using allArch_native_eq [of h ?sup "[]" "emit EvSupportedPlatforms \<sigma>"]
    by (simp_all add: native_archs_def)
  have "fst (allArch h \<sigma>) = fst (allArch_loop h (fst ?r) (range_configs h) [] (snd ?r))"
    by (simp add: allArch_def Let_def case_prod_unfold)
  then show ?thesis
    by (simp add: allArch_loop_eq [OF k] m)
qed

text \<open>
  What \<^verbatim>\<open>allArch\<close> returns, in general: of the architectures of the table, those that the
  host does not run natively and whose resolved emulator binary exists (\<^verbatim>\<open>os.Stat\<close>
  succeeds), and every non-native one when the binary name cannot be resolved at all.
\<close>

lemma allArch_selects:
  assumes "set (range_configs h) = dom configs"
  shows "a \<in> set (fst (allArch h \<sigma>)) \<longleftrightarrow>
           configs a \<noteq> None \<and> a \<notin> set (native_archs h (kernel \<sigma>)) \<and>
           (case getBinaryNames h (configs_index a) of
              Inl err \<Rightarrow> True
            | Inr (b, fullPath) \<Rightarrow> os_Stat h (kernel \<sigma>) fullPath = None)"
  using assms by (auto simp: allArch_eq)

lemma demo_range: "set (range_configs (demo_host env bins cm)) = dom configs"
  by (simp add: demo_host_def configs_def dom_map_of_conv_image_fst)

text \<open>
  C1. The claim, like the comment that heads \<^verbatim>\<open>allArch\<close>, has an architecture whose
  emulator binary is missing returned all the same, so that \<^verbatim>\<open>install\<close> reports it. The
  code does not do so. On a host without any emulator binary and with no prefix set,
  \<^verbatim>\<open>arm64\<close> is in the table and is not native, its binary resolves to a path that does
  not exist, and \<^verbatim>\<open>allArch\<close> returns nothing, \<^verbatim>\<open>arm64\<close> included. The other failure
  of the same loop, a binary name that cannot be resolved, does keep the architecture:
  with a path separator in the prefix \<^verbatim>\<open>arm64\<close> is returned.
\<close>

theorem allArch_skips_missing_binary:
  "configs ''arm64'' \<noteq> None \<and>
   ''arm64'' \<notin> set (native_archs (demo_host no_env [] True) (kernel demo_mounted)) \<and>
   getBinaryNames (demo_host no_env [] True) (configs_index ''arm64'') =
     Inr (''qemu-aarch64'', ''/usr/bin/qemu-aarch64'') \<and>
   os_Stat (demo_host no_env [] True) (kernel demo_mounted) ''/usr/bin/qemu-aarch64'' \<noteq> None \<and>
   fst (allArch (demo_host no_env [] True) demo_mounted) = [] \<and>
   ''arm64'' \<in> set (fst (allArch (demo_host prefix_env [] True) demo_mounted))"
  by code_simp

end
